theory Spec2Isabelle
  imports Main "HOL-Library.Word" "HOL-Library.Sublist"
begin

unbundle bit_operations_syntax

section \<open>Machine values of \<^verbatim>\<open>main.cpp\<close>\<close>

text \<open>
  The firmware runs on a 32-bit target: \<^verbatim>\<open>int\<close> is a 32-bit word (read as two's
  complement by \<open>sint\<close>), \<^verbatim>\<open>uint16_t\<close> a 16-bit word.  A \<^verbatim>\<open>float\<close> is kept as its
  IEEE-754 binary32 bit pattern; \<^verbatim>\<open>main.cpp\<close> does no floating-point arithmetic, it only
  moves floats around and compares two of them with the literal \<^verbatim>\<open>0.0\<close>.
\<close>

type_synonym int32 = "32 word"
type_synonym uint16 = "16 word"
type_synonym float32 = "32 word"

text \<open>
  The C++ test \<^verbatim>\<open>f == 0.0\<close> on a \<^verbatim>\<open>float f\<close>: \<open>f\<close> is promoted to \<^verbatim>\<open>double\<close> (exactly)
  and compared numerically.  It is true exactly for the two zeros \<open>+0.0\<close> (all bits
  clear) and \<open>-0.0\<close> (only the sign bit set), and false for every other pattern, NaN
  included.
\<close>

definition float_eq_zero :: "float32 \<Rightarrow> bool" where
  "float_eq_zero f = (f AND 0x7FFFFFFF = 0)"

section \<open>Calls to the collaborators\<close>

text \<open>
  \<^verbatim>\<open>main.cpp\<close> is orchestration code: what it does is the sequence of calls it makes on
  the global service objects (\<^verbatim>\<open>cfg\<close>, \<^verbatim>\<open>gui\<close>, \<^verbatim>\<open>sensors\<close>, \<^verbatim>\<open>wd\<close>, \<^verbatim>\<open>Serial\<close>) and on
  the free functions of the battery, bluetooth and wifi modules.  Every such call is an
  event of a trace, with the argument values \<^verbatim>\<open>main.cpp\<close> computes for it.

  Build-time macros whose values are not part of \<^verbatim>\<open>main.cpp\<close> stay symbolic.
\<close>

datatype macro = VERSION | FLAVOR | TARGET | WATCHDOG_TIME | PMS_EN

text \<open>
  An Arduino \<^verbatim>\<open>String\<close> built by \<^verbatim>\<open>+\<close> is the list of its parts: a string (a literal or
  a \<^verbatim>\<open>String\<close> value), or \<^verbatim>\<open>String(x)\<close> of an \<^verbatim>\<open>int\<close>, a \<^verbatim>\<open>bool\<close> or a macro.
\<close>

datatype text_part = Str string | OfInt int32 | OfBool bool | OfMacro macro

type_synonym message = "text_part list"

datatype pin_mode = OUTPUT
datatype pin_level = HIGH

datatype arduino_call =
    SerialBegin nat
  | SerialPrint message
  | SerialPrintln message
  | Delay nat
  | PinMode macro pin_mode
  | DigitalWrite macro pin_level
  | LogI string
  | LogW string string

datatype cfg_call =
    CfgInit string
  | CfgWifiEnable bool
  | CfgReload
  | CfgSaveBrightness int32
  | CfgColorsInvertedEnable bool
  | CfgSaveSampleTime int32

text \<open>The six arguments of \<^verbatim>\<open>gui.setSensorData\<close>, in the order of the call.\<close>

record sensor_data =
  arg_mainValue :: uint16
  arg_chargeLevel :: int
  arg_humi :: float32
  arg_temp :: float32
  arg_rssi :: int
  arg_deviceType :: int32

datatype gui_call =
    GuiSetBrightness int32
  | GuiSetWifiMode bool
  | GuiSetSampleTime int32
  | GuiDisplayInit
  | GuiSetCallbacks
  | GuiShowWelcome
  | GuiWelcomeAddMessage message
  | GuiShowMain
  | GuiDisplaySensorLiveIcon
  | GuiSetSensorData sensor_data
  | GuiSetGUIStatusFlags bool bool bool

text \<open>
  \<open>SensorsInit\<close> and \<open>SensorsLoop\<close> carry, besides the argument of the call, the value
  of the hub's public field \<^verbatim>\<open>sample_time\<close> at the moment of the call: the interval the
  hub works with while it detects or polls.
\<close>

datatype sensors_call =
    SensorsSetOnDataCallBack
  | SensorsSetOnErrorCallBack
  | SensorsSetSampleTime int32
  | SensorsSetTempOffset float32
  | SensorsDetectI2COnly bool
  | SensorsSetDebugMode bool
  | SensorsInit int32 int32
  | SensorsLoop int32
  | SensorsSetCO2RecalibrationFactor int32

datatype module_call =
    BatteryInit
  | BatteryLoop
  | WdInit
  | WdLoop
  | WifiInit
  | WifiLoop
  | WifiStop
  | BleServerInit
  | BleLoop
  | BleServerConfigRefresh
  | InfluxDbInit
  | InfluxDbLoop
  | OtaLoop

datatype call =
    Arduino arduino_call
  | Cfg cfg_call
  | Gui gui_call
  | Sensors sensors_call
  | Module module_call

section \<open>State read back by \<^verbatim>\<open>main.cpp\<close>\<close>

text \<open>
  The configuration as \<^verbatim>\<open>main.cpp\<close> reads it: the public fields \<^verbatim>\<open>stime\<close>, \<^verbatim>\<open>stype\<close>,
  \<^verbatim>\<open>toffset\<close>, \<^verbatim>\<open>i2conly\<close>, \<^verbatim>\<open>devmode\<close>, \<^verbatim>\<open>ssid\<close>, \<^verbatim>\<open>deviceId\<close> and the values behind
  \<^verbatim>\<open>getBrightness()\<close>, \<^verbatim>\<open>isWifiEnable()\<close>, \<^verbatim>\<open>isIfxEnable()\<close>.
\<close>

record device_configuration =
  wifi_enable :: bool
  brightness :: int32
  colors_inverted :: bool
  stime :: int32
  stype :: int32
  toffset :: float32
  i2conly :: bool
  devmode :: bool
  deviceId :: string
  ssid :: string
  ifx_enable :: bool

text \<open>
  The configuration store holds the persisted settings and the view loaded from them,
  which is what the fields and getters of \<^verbatim>\<open>cfg\<close> return.
\<close>

record config_store =
  persisted :: device_configuration
  loaded :: device_configuration

datatype data_callback = OnSensorDataOk
datatype error_callback = OnSensorDataError

record sensor_hub =
  sample_time :: int32
  temp_offset :: float32
  i2c_only :: bool
  debug_mode :: bool
  onDataCb :: "data_callback option"
  onErrorCb :: "error_callback option"
  pm_sensor_configured :: bool
  device_selected :: string
  device_type_selected :: int32
  pm25 :: uint16
  co2 :: uint16
  humidity :: float32
  temperature :: float32
  co2humi :: float32
  co2temp :: float32

record world =
  cfg :: config_store
  sensors :: sensor_hub
  trace :: "call list"

section \<open>What the environment answers\<close>

text \<open>
  Values that come from hardware and radio during one run of an entry point
  (\<^verbatim>\<open>setup\<close>, one \<^verbatim>\<open>loop\<close>, one callback): the outcome of hardware detection inside
  \<^verbatim>\<open>sensors.init\<close>, the outcome of the poll inside \<^verbatim>\<open>sensors.loop\<close>, and the values
  returned by \<^verbatim>\<open>getChargeLevel()\<close>, \<^verbatim>\<open>getWifiRSSI()\<close>, \<^verbatim>\<open>WiFi.isConnected()\<close>,
  \<^verbatim>\<open>bleIsConnected()\<close> and \<^verbatim>\<open>gui.getFirmwareVersionCode()\<close>.  The result types of
  \<^verbatim>\<open>getChargeLevel\<close> and \<^verbatim>\<open>getWifiRSSI\<close> are declared outside \<^verbatim>\<open>main.cpp\<close>; their values
  are passed on unchanged.
\<close>

record detection =
  det_configured :: bool
  det_device :: string
  det_device_type :: int32

record sensor_reading =
  new_pm25 :: uint16
  new_co2 :: uint16
  new_humidity :: float32
  new_temperature :: float32
  new_co2humi :: float32
  new_co2temp :: float32

datatype poll_outcome = NotDue | DataReady sensor_reading | NoData string

record env =
  detection :: detection
  poll :: poll_outcome
  chargeLevel :: int
  wifiRSSI :: int
  wifi_isConnected :: bool
  ble_isConnected :: bool
  firmwareVersionCode :: string

section \<open>Sequencing\<close>

definition emit :: "call \<Rightarrow> world \<Rightarrow> world" where
  "emit c w = w\<lparr>trace := trace w @ [c]\<rparr>"

text \<open>A function body: its statements, run in source order.\<close>

definition exec :: "(world \<Rightarrow> world) list \<Rightarrow> world \<Rightarrow> world" where
  "exec stmts w = fold (\<lambda>stmt. stmt) stmts w"

text \<open>The calls made since the world \<open>w\<close>, given a later world \<open>w'\<close>.\<close>

definition calls_since :: "world \<Rightarrow> world \<Rightarrow> call list" where
  "calls_since w w' = drop (length (trace w)) (trace w')"

section \<open>Arduino core and logging\<close>

definition Serial_begin :: "nat \<Rightarrow> world \<Rightarrow> world" where
  "Serial_begin baud = emit (Arduino (SerialBegin baud))"

definition Serial_print :: "message \<Rightarrow> world \<Rightarrow> world" where
  "Serial_print t = emit (Arduino (SerialPrint t))"

definition Serial_println :: "message \<Rightarrow> world \<Rightarrow> world" where
  "Serial_println t = emit (Arduino (SerialPrintln t))"

definition delay :: "nat \<Rightarrow> world \<Rightarrow> world" where
  "delay ms = emit (Arduino (Delay ms))"

definition pinMode :: "macro \<Rightarrow> pin_mode \<Rightarrow> world \<Rightarrow> world" where
  "pinMode pin m = emit (Arduino (PinMode pin m))"

definition digitalWrite :: "macro \<Rightarrow> pin_level \<Rightarrow> world \<Rightarrow> world" where
  "digitalWrite pin l = emit (Arduino (DigitalWrite pin l))"

definition log_i :: "string \<Rightarrow> world \<Rightarrow> world" where
  "log_i fmt = emit (Arduino (LogI fmt))"

definition log_w :: "string \<Rightarrow> string \<Rightarrow> world \<Rightarrow> world" where
  "log_w fmt msg = emit (Arduino (LogW fmt msg))"

section \<open>The configuration store \<^verbatim>\<open>cfg\<close>\<close>

text \<open>
  Modelled from the spec: the class of \<^verbatim>\<open>cfg\<close> (\<^verbatim>\<open>ConfigApp.hpp\<close>) is not part of
  \<^verbatim>\<open>main.cpp\<close>.  Following the spec's ConfigStore, \<open>init\<close> and \<open>reload\<close> load the
  persisted settings into the view that the fields and getters return (a setting that was
  never saved is persisted with its default), and each save operation persists one
  setting and never fails (``all ConfigStore operations are assumed
  best-effort/non-failing at this layer'').  The sample time is the one setting with an
  invariant in the spec's data model, and the store keeps it.
\<close>

definition load_persisted :: "world \<Rightarrow> world" where
  "load_persisted w = w\<lparr>cfg := (cfg w)\<lparr>loaded := persisted (cfg w)\<rparr>\<rparr>"

definition persist ::
  "(device_configuration \<Rightarrow> device_configuration) \<Rightarrow> world \<Rightarrow> world" where
  "persist upd w = w\<lparr>cfg := (cfg w)\<lparr>persisted := upd (persisted (cfg w))\<rparr>\<rparr>"

text \<open>
  Modelled from the spec: \<^verbatim>\<open>ConfigApp::init\<close> is missing; ``ConfigStore loads persisted
  settings or falls back to defaults''.
\<close>

definition cfg_init :: "string \<Rightarrow> world \<Rightarrow> world" where
  "cfg_init ns w = load_persisted (emit (Cfg (CfgInit ns)) w)"

text \<open>
  Modelled from the spec: \<^verbatim>\<open>ConfigApp::reload\<close> is missing; it loads the persisted
  settings again.
\<close>

definition cfg_reload :: "world \<Rightarrow> world" where
  "cfg_reload w = load_persisted (emit (Cfg CfgReload) w)"

text \<open>
  Modelled from the spec: the save operations of \<^verbatim>\<open>ConfigApp\<close> are missing; each persists
  its argument as the named setting and does not fail.
\<close>

definition cfg_wifiEnable :: "bool \<Rightarrow> world \<Rightarrow> world" where
  "cfg_wifiEnable enable w =
     persist (\<lambda>c. c\<lparr>wifi_enable := enable\<rparr>) (emit (Cfg (CfgWifiEnable enable)) w)"

definition cfg_saveBrightness :: "int32 \<Rightarrow> world \<Rightarrow> world" where
  "cfg_saveBrightness v w =
     persist (\<lambda>c. c\<lparr>brightness := v\<rparr>) (emit (Cfg (CfgSaveBrightness v)) w)"

definition cfg_colorsInvertedEnable :: "bool \<Rightarrow> world \<Rightarrow> world" where
  "cfg_colorsInvertedEnable enable w =
     persist (\<lambda>c. c\<lparr>colors_inverted := enable\<rparr>)
       (emit (Cfg (CfgColorsInvertedEnable enable)) w)"

text \<open>
  Modelled from the spec: \<^verbatim>\<open>ConfigApp::saveSampleTime\<close> is missing.  The spec's data model
  has ``sample-time (positive integer seconds)'' with the ``invariant: sample-time > 0
  always'', and the operation is best-effort and non-failing: a positive time is
  persisted, any other time is dropped and the persisted sample time stays as it was.
\<close>

definition cfg_saveSampleTime :: "int32 \<Rightarrow> world \<Rightarrow> world" where
  "cfg_saveSampleTime t w =
     (if 0 < sint t
      then persist (\<lambda>c. c\<lparr>stime := t\<rparr>) (emit (Cfg (CfgSaveSampleTime t)) w)
      else emit (Cfg (CfgSaveSampleTime t)) w)"

text \<open>
  Modelled from the spec: the getters of \<^verbatim>\<open>cfg\<close> are declared in \<^verbatim>\<open>ConfigApp.hpp\<close>; they
  are the spec's accessors of the loaded configuration (\<^verbatim>\<open>getSensorType\<close> and
  \<^verbatim>\<open>getDeviceId\<close> read the sensor type and the device id).
\<close>

definition cfg_getBrightness :: "world \<Rightarrow> int32" where
  "cfg_getBrightness w = brightness (loaded (cfg w))"

definition cfg_isWifiEnable :: "world \<Rightarrow> bool" where
  "cfg_isWifiEnable w = wifi_enable (loaded (cfg w))"

definition cfg_isIfxEnable :: "world \<Rightarrow> bool" where
  "cfg_isIfxEnable w = ifx_enable (loaded (cfg w))"

definition cfg_getSensorType :: "world \<Rightarrow> int32" where
  "cfg_getSensorType w = stype (loaded (cfg w))"

definition cfg_getDeviceId :: "world \<Rightarrow> string" where
  "cfg_getDeviceId w = deviceId (loaded (cfg w))"

section \<open>The display \<^verbatim>\<open>gui\<close>\<close>

definition gui_setBrightness :: "int32 \<Rightarrow> world \<Rightarrow> world" where
  "gui_setBrightness v = emit (Gui (GuiSetBrightness v))"

definition gui_setWifiMode :: "bool \<Rightarrow> world \<Rightarrow> world" where
  "gui_setWifiMode b = emit (Gui (GuiSetWifiMode b))"

definition gui_setSampleTime :: "int32 \<Rightarrow> world \<Rightarrow> world" where
  "gui_setSampleTime t = emit (Gui (GuiSetSampleTime t))"

definition gui_displayInit :: "world \<Rightarrow> world" where
  "gui_displayInit = emit (Gui GuiDisplayInit)"

definition gui_setCallbacks :: "world \<Rightarrow> world" where
  "gui_setCallbacks = emit (Gui GuiSetCallbacks)"

definition gui_showWelcome :: "world \<Rightarrow> world" where
  "gui_showWelcome = emit (Gui GuiShowWelcome)"

definition gui_welcomeAddMessage :: "message \<Rightarrow> world \<Rightarrow> world" where
  "gui_welcomeAddMessage m = emit (Gui (GuiWelcomeAddMessage m))"

definition gui_showMain :: "world \<Rightarrow> world" where
  "gui_showMain = emit (Gui GuiShowMain)"

definition gui_displaySensorLiveIcon :: "world \<Rightarrow> world" where
  "gui_displaySensorLiveIcon = emit (Gui GuiDisplaySensorLiveIcon)"

definition gui_setSensorData :: "sensor_data \<Rightarrow> world \<Rightarrow> world" where
  "gui_setSensorData d = emit (Gui (GuiSetSensorData d))"

definition gui_setGUIStatusFlags :: "bool \<Rightarrow> bool \<Rightarrow> bool \<Rightarrow> world \<Rightarrow> world" where
  "gui_setGUIStatusFlags wifiOn sensorsOk bleOn =
     emit (Gui (GuiSetGUIStatusFlags wifiOn sensorsOk bleOn))"

section \<open>Battery, watchdog, wifi, bluetooth, cloud\<close>

definition batteryInit :: "world \<Rightarrow> world" where
  "batteryInit = emit (Module BatteryInit)"

definition batteryloop :: "world \<Rightarrow> world" where
  "batteryloop = emit (Module BatteryLoop)"

definition wd_init :: "world \<Rightarrow> world" where
  "wd_init = emit (Module WdInit)"

definition wd_loop :: "world \<Rightarrow> world" where
  "wd_loop = emit (Module WdLoop)"

definition wifiInit :: "world \<Rightarrow> world" where
  "wifiInit = emit (Module WifiInit)"

definition wifiLoop :: "world \<Rightarrow> world" where
  "wifiLoop = emit (Module WifiLoop)"

definition wifiStop :: "world \<Rightarrow> world" where
  "wifiStop = emit (Module WifiStop)"

definition bleServerInit :: "world \<Rightarrow> world" where
  "bleServerInit = emit (Module BleServerInit)"

definition bleLoop :: "world \<Rightarrow> world" where
  "bleLoop = emit (Module BleLoop)"

definition bleServerConfigRefresh :: "world \<Rightarrow> world" where
  "bleServerConfigRefresh = emit (Module BleServerConfigRefresh)"

definition influxDbInit :: "world \<Rightarrow> world" where
  "influxDbInit = emit (Module InfluxDbInit)"

definition influxDbLoop :: "world \<Rightarrow> world" where
  "influxDbLoop = emit (Module InfluxDbLoop)"

definition otaLoop :: "world \<Rightarrow> world" where
  "otaLoop = emit (Module OtaLoop)"

section \<open>The sensor hub \<^verbatim>\<open>sensors\<close>: setters and getters\<close>

text \<open>
  Modelled from the spec: the class of \<^verbatim>\<open>sensors\<close> (\<^verbatim>\<open>Sensors.hpp\<close>) is not part of
  \<^verbatim>\<open>main.cpp\<close>.  Following the spec's SensorHub, each setter stores its argument
  (\<^verbatim>\<open>setSampleTime\<close> sets the current sample time, the field \<^verbatim>\<open>sample_time\<close> that
  \<^verbatim>\<open>onSampleTime\<close> reads), \<open>init\<close> attempts hardware detection, and each getter returns
  the matching component of the latest reading.
\<close>

definition upd_sensors :: "(sensor_hub \<Rightarrow> sensor_hub) \<Rightarrow> world \<Rightarrow> world" where
  "upd_sensors upd w = w\<lparr>sensors := upd (sensors w)\<rparr>"

definition sensors_setOnDataCallBack :: "data_callback \<Rightarrow> world \<Rightarrow> world" where
  "sensors_setOnDataCallBack cb w =
     upd_sensors (\<lambda>h. h\<lparr>onDataCb := Some cb\<rparr>) (emit (Sensors SensorsSetOnDataCallBack) w)"

definition sensors_setOnErrorCallBack :: "error_callback \<Rightarrow> world \<Rightarrow> world" where
  "sensors_setOnErrorCallBack cb w =
     upd_sensors (\<lambda>h. h\<lparr>onErrorCb := Some cb\<rparr>) (emit (Sensors SensorsSetOnErrorCallBack) w)"

text \<open>
  Modelled from the spec: \<^verbatim>\<open>Sensors::setSampleTime\<close> is missing; it sets the hub's current
  sample time, the public field \<^verbatim>\<open>sample_time\<close>.
\<close>

definition sensors_setSampleTime :: "int32 \<Rightarrow> world \<Rightarrow> world" where
  "sensors_setSampleTime t w =
     upd_sensors (\<lambda>h. h\<lparr>sample_time := t\<rparr>) (emit (Sensors (SensorsSetSampleTime t)) w)"

definition sensors_setTempOffset :: "float32 \<Rightarrow> world \<Rightarrow> world" where
  "sensors_setTempOffset off w =
     upd_sensors (\<lambda>h. h\<lparr>temp_offset := off\<rparr>) (emit (Sensors (SensorsSetTempOffset off)) w)"

definition sensors_detectI2COnly :: "bool \<Rightarrow> world \<Rightarrow> world" where
  "sensors_detectI2COnly b w =
     upd_sensors (\<lambda>h. h\<lparr>i2c_only := b\<rparr>) (emit (Sensors (SensorsDetectI2COnly b)) w)"

definition sensors_setDebugMode :: "bool \<Rightarrow> world \<Rightarrow> world" where
  "sensors_setDebugMode b w =
     upd_sensors (\<lambda>h. h\<lparr>debug_mode := b\<rparr>) (emit (Sensors (SensorsSetDebugMode b)) w)"

text \<open>
  Modelled from the spec: \<^verbatim>\<open>Sensors::init\<close> is missing; it attempts hardware detection,
  and what it found is what \<^verbatim>\<open>isPmSensorConfigured\<close>, \<^verbatim>\<open>getPmDeviceSelected\<close> and
  \<^verbatim>\<open>getPmDeviceTypeSelected\<close> report afterwards.
\<close>

definition sensors_init :: "env \<Rightarrow> int32 \<Rightarrow> world \<Rightarrow> world" where
  "sensors_init e ty w =
     upd_sensors
       (\<lambda>h. h\<lparr>pm_sensor_configured := det_configured (detection e),
              device_selected := det_device (detection e),
              device_type_selected := det_device_type (detection e)\<rparr>)
       (emit (Sensors (SensorsInit ty (sample_time (sensors w)))) w)"

definition sensors_setCO2RecalibrationFactor :: "int32 \<Rightarrow> world \<Rightarrow> world" where
  "sensors_setCO2RecalibrationFactor ppm =
     emit (Sensors (SensorsSetCO2RecalibrationFactor ppm))"

definition sensors_isPmSensorConfigured :: "world \<Rightarrow> bool" where
  "sensors_isPmSensorConfigured w = pm_sensor_configured (sensors w)"

definition sensors_getPmDeviceSelected :: "world \<Rightarrow> string" where
  "sensors_getPmDeviceSelected w = device_selected (sensors w)"

definition sensors_getPmDeviceTypeSelected :: "world \<Rightarrow> int32" where
  "sensors_getPmDeviceTypeSelected w = device_type_selected (sensors w)"

definition sensors_getPM25 :: "world \<Rightarrow> uint16" where
  "sensors_getPM25 w = pm25 (sensors w)"

definition sensors_getCO2 :: "world \<Rightarrow> uint16" where
  "sensors_getCO2 w = co2 (sensors w)"

definition sensors_getHumidity :: "world \<Rightarrow> float32" where
  "sensors_getHumidity w = humidity (sensors w)"

definition sensors_getTemperature :: "world \<Rightarrow> float32" where
  "sensors_getTemperature w = temperature (sensors w)"

definition sensors_getCO2humi :: "world \<Rightarrow> float32" where
  "sensors_getCO2humi w = co2humi (sensors w)"

definition sensors_getCO2temp :: "world \<Rightarrow> float32" where
  "sensors_getCO2temp w = co2temp (sensors w)"

section \<open>\<^verbatim>\<open>refreshGUIData\<close> (lines 19 to 42)\<close>

definition refreshGUIData :: "env \<Rightarrow> world \<Rightarrow> world" where
  "refreshGUIData e w0 =
     (let w = gui_displaySensorLiveIcon w0;
          deviceType = sensors_getPmDeviceTypeSelected w;
          mainValue = (0::uint16);
          mainValue = (if sint deviceType \<le> 3 then sensors_getPM25 w else sensors_getCO2 w);
          humi = sensors_getHumidity w;
          humi = (if float_eq_zero humi then sensors_getCO2humi w else humi);
          temp = sensors_getTemperature w;
          temp = (if float_eq_zero temp then sensors_getCO2temp w else temp)
      in gui_setSensorData
           \<lparr>arg_mainValue = mainValue,
            arg_chargeLevel = chargeLevel e,
            arg_humi = humi,
            arg_temp = temp,
            arg_rssi = wifiRSSI e,
            arg_deviceType = deviceType\<rparr> w)"

section \<open>\<^verbatim>\<open>MyGUIUserPreferencesCallbacks\<close> (lines 44 to 72)\<close>

definition onWifiMode :: "bool \<Rightarrow> world \<Rightarrow> world" where
  "onWifiMode enable = exec
     [Serial_println [Str ''-->[MAIN] onWifi changed: '', OfBool enable],
      cfg_wifiEnable enable,
      cfg_reload,
      (\<lambda>w. if \<not> enable then wifiStop w else w)]"

definition onBrightness :: "int32 \<Rightarrow> world \<Rightarrow> world" where
  "onBrightness v = exec
     [Serial_println [Str ''-->[MAIN] onBrightness changed: '', OfInt v],
      cfg_saveBrightness v]"

definition onColorsInverted :: "bool \<Rightarrow> world \<Rightarrow> world" where
  "onColorsInverted enable = exec
     [Serial_println [Str ''-->[MAIN] onColorsInverted changed: '', OfBool enable],
      cfg_colorsInvertedEnable enable]"

definition onSampleTime :: "int32 \<Rightarrow> world \<Rightarrow> world" where
  "onSampleTime t w =
     (if sample_time (sensors w) \<noteq> t then
        exec
          [Serial_println [Str ''-->[MAIN] onSampleTime changed: '', OfInt t],
           cfg_saveSampleTime t,
           cfg_reload,
           bleServerConfigRefresh,
           (\<lambda>w. sensors_setSampleTime (stime (loaded (cfg w))) w)] w
      else w)"

definition onCalibrationReady :: "world \<Rightarrow> world" where
  "onCalibrationReady = exec
     [Serial_println [Str ''-->[MAIN] onCalibrationReady''],
      sensors_setCO2RecalibrationFactor 418]"

section \<open>The sensor callbacks (lines 74 to 83) and \<^verbatim>\<open>sensors.loop\<close>\<close>

definition onSensorDataOk :: "env \<Rightarrow> world \<Rightarrow> world" where
  "onSensorDataOk e = exec
     [log_i ''[MAIN] onSensorDataOk'',
      refreshGUIData e]"

definition onSensorDataError :: "string \<Rightarrow> world \<Rightarrow> world" where
  "onSensorDataError msg = log_w ''[MAIN] onSensorDataError'' msg"

text \<open>
  Modelled from the spec: \<^verbatim>\<open>Sensors::loop\<close> is not part of \<^verbatim>\<open>main.cpp\<close>.  Following the
  spec's SensorHub, a poll either has nothing to report, or produces a reading and then
  runs the registered data callback (if any), or fails to read and then runs the
  registered error callback (if any) with a message.
\<close>

definition store_reading :: "sensor_reading \<Rightarrow> world \<Rightarrow> world" where
  "store_reading r =
     upd_sensors
       (\<lambda>h. h\<lparr>pm25 := new_pm25 r, co2 := new_co2 r,
              humidity := new_humidity r, temperature := new_temperature r,
              co2humi := new_co2humi r, co2temp := new_co2temp r\<rparr>)"

definition run_data_callback :: "env \<Rightarrow> world \<Rightarrow> world" where
  "run_data_callback e w =
     (case onDataCb (sensors w) of
        None \<Rightarrow> w
      | Some OnSensorDataOk \<Rightarrow> onSensorDataOk e w)"

definition run_error_callback :: "string \<Rightarrow> world \<Rightarrow> world" where
  "run_error_callback msg w =
     (case onErrorCb (sensors w) of
        None \<Rightarrow> w
      | Some OnSensorDataError \<Rightarrow> onSensorDataError msg w)"

definition sensors_loop :: "env \<Rightarrow> world \<Rightarrow> world" where
  "sensors_loop e w0 =
     (let w = emit (Sensors (SensorsLoop (sample_time (sensors w0)))) w0
      in case poll e of
           NotDue \<Rightarrow> w
         | DataReady r \<Rightarrow> run_data_callback e (store_reading r w)
         | NoData msg \<Rightarrow> run_error_callback msg w)"

section \<open>\<^verbatim>\<open>startingSensors\<close> (lines 85 to 108)\<close>

definition startingSensors :: "env \<Rightarrow> world \<Rightarrow> world" where
  "startingSensors e = exec
     [(\<lambda>w. Serial_println
             [Str ''-->[INFO] PM sensor configured: '', OfInt (stype (loaded (cfg w)))] w),
      gui_welcomeAddMessage [Str ''Detected sensor:''],
      sensors_setOnDataCallBack OnSensorDataOk,
      sensors_setOnErrorCallBack OnSensorDataError,
      sensors_setSampleTime 1,
      (\<lambda>w. sensors_setTempOffset (toffset (loaded (cfg w))) w),
      (\<lambda>w. sensors_detectI2COnly (i2conly (loaded (cfg w))) w),
      (\<lambda>w. sensors_setDebugMode (devmode (loaded (cfg w))) w),
      (\<lambda>w. sensors_init e (cfg_getSensorType w) w),
      (\<lambda>w. if sensors_isPmSensorConfigured w then
              exec
                [Serial_print [Str ''-->[INFO] PM/CO2 sensor detected: ''],
                 (\<lambda>w. Serial_println [Str (sensors_getPmDeviceSelected w)] w),
                 (\<lambda>w. gui_welcomeAddMessage [Str (sensors_getPmDeviceSelected w)] w)] w
            else
              exec
                [Serial_println [Str ''-->[INFO] Detection sensors FAIL!''],
                 gui_welcomeAddMessage [Str ''Detection !FAILED!'']] w)]"

section \<open>\<^verbatim>\<open>setup\<close> (lines 114 to 179), here \<open>setup_fn\<close>\<close>

definition setup_fn :: "env \<Rightarrow> world \<Rightarrow> world" where
  "setup_fn e = exec
     [Serial_begin 115200,
      delay 400,
      Serial_println [Str (CHR 0x0A # ''== CanAirIO Setup =='' @ [CHR 0x0A])],

      cfg_init ''canairio'',

      (\<lambda>w. gui_setBrightness (cfg_getBrightness w) w),
      (\<lambda>w. gui_setWifiMode (cfg_isWifiEnable w) w),
      (\<lambda>w. gui_setSampleTime (stime (loaded (cfg w))) w),
      gui_displayInit,
      gui_setCallbacks,
      gui_showWelcome,

      (\<lambda>w. Serial_println
             [Str ''-->[INFO] ESP32MAC: '', Str (deviceId (loaded (cfg w)))] w),
      Serial_println [Str ''-->[INFO] Revision: '', Str (firmwareVersionCode e)],
      Serial_println [Str ''-->[INFO] Firmware: '', OfMacro VERSION],
      Serial_println [Str ''-->[INFO] Flavor  : '', OfMacro FLAVOR],
      Serial_println [Str ''-->[INFO] Target  : '', OfMacro TARGET],

      Serial_println [Str ''-->[INFO] Detecting sensors..''],
      pinMode PMS_EN OUTPUT,
      digitalWrite PMS_EN HIGH,
      startingSensors e,

      batteryInit,

      wd_init,

      wifiInit,

      bleServerInit,
      gui_welcomeAddMessage [Str ''Bluetooth ready.''],

      (\<lambda>w. Serial_println
             [Str (''-->[INFO] InfluxDb API:'' @ [CHR 0x09]), OfBool (cfg_isIfxEnable w)] w),
      (\<lambda>w. gui_welcomeAddMessage [Str ''InfluxDb :'', OfBool (cfg_isIfxEnable w)] w),

      influxDbInit,

      (\<lambda>w. if wifi_isConnected e
            then gui_welcomeAddMessage [Str ''WiFi:'', Str (ssid (loaded (cfg w)))] w
            else gui_welcomeAddMessage [Str ''WiFi: disabled.''] w),

      (\<lambda>w. gui_welcomeAddMessage
             [Str ''stime: '', OfInt (stime (loaded (cfg w))), Str '' sec.''] w),
      (\<lambda>w. gui_welcomeAddMessage [Str (cfg_getDeviceId w)] w),
      gui_welcomeAddMessage [Str ''Watchdog:'', OfMacro WATCHDOG_TIME],
      gui_welcomeAddMessage [Str ''==SETUP READY==''],
      delay 500,
      gui_showMain,
      refreshGUIData e,
      delay 500,
      sensors_loop e,
      (\<lambda>w. sensors_setSampleTime (stime (loaded (cfg w))) w)]"

section \<open>\<^verbatim>\<open>loop\<close> (lines 181 to 192)\<close>

definition loop :: "env \<Rightarrow> world \<Rightarrow> world" where
  "loop e = exec
     [sensors_loop e,
      batteryloop,
      bleLoop,
      wifiLoop,
      influxDbLoop,
      otaLoop,
      wd_loop,

      gui_setGUIStatusFlags (wifi_isConnected e) True (ble_isConnected e)]"

text \<open>
  The Arduino core calls \<^verbatim>\<open>loop\<close> again and again, for ever.  A run of the device is
  observed up to some iteration: one environment per iteration, in order.
\<close>

primrec loops :: "env list \<Rightarrow> world \<Rightarrow> world" where
  "loops [] w = w"
| "loops (e # es) w = loops es (loop e w)"

section \<open>Observing a trace\<close>

text \<open>
  The calls that the sensor callbacks of \<^verbatim>\<open>main.cpp\<close> make while \<^verbatim>\<open>sensors.loop\<close> runs:
  log lines and the two display updates of \<^verbatim>\<open>refreshGUIData\<close>.
\<close>

fun callback_call :: "call \<Rightarrow> bool" where
  "callback_call (Arduino (LogI _)) = True"
| "callback_call (Arduino (LogW _ _)) = True"
| "callback_call (Gui GuiDisplaySensorLiveIcon) = True"
| "callback_call (Gui (GuiSetSensorData _)) = True"
| "callback_call _ = False"

text \<open>The calls made by the callbacks during one \<^verbatim>\<open>sensors.loop\<close>, after the poll itself.\<close>

definition callback_calls :: "env \<Rightarrow> world \<Rightarrow> call list" where
  "callback_calls e w = drop (Suc (length (trace w))) (trace (sensors_loop e w))"

text \<open>
  The eight steps of one iteration, as the spec of the main scheduler names them, and the
  call of \<^verbatim>\<open>loop\<close> that performs each.
\<close>

datatype step =
    SensorPoll
  | BatteryPoll
  | ConfigServerNotify
  | WifiCheck
  | CloudPublish
  | FirmwareUpdateCheck
  | WatchdogFeed
  | DisplayStatusFlags

fun step_of :: "call \<Rightarrow> step option" where
  "step_of (Sensors (SensorsLoop _)) = Some SensorPoll"
| "step_of (Module BatteryLoop) = Some BatteryPoll"
| "step_of (Module BleLoop) = Some ConfigServerNotify"
| "step_of (Module WifiLoop) = Some WifiCheck"
| "step_of (Module InfluxDbLoop) = Some CloudPublish"
| "step_of (Module OtaLoop) = Some FirmwareUpdateCheck"
| "step_of (Module WdLoop) = Some WatchdogFeed"
| "step_of (Gui (GuiSetGUIStatusFlags _ _ _)) = Some DisplayStatusFlags"
| "step_of _ = None"

definition loop_steps :: "step list" where
  "loop_steps =
     [SensorPoll, BatteryPoll, ConfigServerNotify, WifiCheck,
      CloudPublish, FirmwareUpdateCheck, WatchdogFeed, DisplayStatusFlags]"

text \<open>The arguments of a status-flags update: wifi connected, sensors ok, bluetooth connected.\<close>

fun status_flags_of :: "call \<Rightarrow> (bool \<times> bool \<times> bool) option" where
  "status_flags_of (Gui (GuiSetGUIStatusFlags wifiOn sensorsOk bleOn)) =
     Some (wifiOn, sensorsOk, bleOn)"
| "status_flags_of _ = None"

text \<open>The calls on the sensor hub among all calls.\<close>

fun sensors_call_of :: "call \<Rightarrow> sensors_call option" where
  "sensors_call_of (Sensors c) = Some c"
| "sensors_call_of _ = None"

section \<open>Example devices\<close>

definition example_configuration :: device_configuration where
  "example_configuration =
     \<lparr>wifi_enable = True, brightness = 30, colors_inverted = False, stime = 5, stype = 0,
      toffset = 0, i2conly = False, devmode = False, deviceId = ''U33CanAirIO'', ssid = ''home'',
      ifx_enable = False\<rparr>"

text \<open>
  The spec's first scenario: device type 2, pm25 35, co2 900, humidity 0.0 and
  co2-derived humidity 48.2 (\<open>0x4240CCCD\<close>); temperature 22.5 (\<open>0x41B40000\<close>).
\<close>

definition example_hub :: sensor_hub where
  "example_hub =
     \<lparr>sample_time = 5, temp_offset = 0, i2c_only = False, debug_mode = False,
      onDataCb = Some OnSensorDataOk, onErrorCb = Some OnSensorDataError,
      pm_sensor_configured = True, device_selected = ''HONEYWELL'', device_type_selected = 2,
      pm25 = 35, co2 = 900, humidity = 0, temperature = 0x41B40000,
      co2humi = 0x4240CCCD, co2temp = 0x41A80000\<rparr>"

definition world_pm :: world where
  "world_pm =
     \<lparr>cfg = \<lparr>persisted = example_configuration, loaded = example_configuration\<rparr>,
      sensors = example_hub, trace = []\<rparr>"

text \<open>
  The spec's second scenario: device type 5, pm25 12, co2 650; humidity 55.0
  (\<open>0x425C0000\<close>) and temperature \<open>-0.0\<close> (\<open>0x80000000\<close>).
\<close>

definition world_co2 :: world where
  "world_co2 =
     world_pm\<lparr>sensors := example_hub
       \<lparr>device_selected := ''SENSIRION'', device_type_selected := 5, pm25 := 12, co2 := 650,
        humidity := 0x425C0000, temperature := 0x80000000\<rparr>\<rparr>"

definition env_no_sensor :: env where
  "env_no_sensor =
     \<lparr>detection = \<lparr>det_configured = False, det_device = [], det_device_type = - 1\<rparr>,
      poll = NoData ''-->[W][SENSORS] No data from any sensor!'',
      chargeLevel = 80, wifiRSSI = - 60, wifi_isConnected = False, ble_isConnected = False,
      firmwareVersionCode = ''r777''\<rparr>"

section \<open>Basic facts\<close>

lemma exec_Nil [simp]: "exec [] w = w"
  by (simp add: exec_def)

lemma exec_Cons [simp]: "exec (s # ss) w = exec ss (s w)"
  by (simp add: exec_def)

lemmas arduino_defs =
  Serial_begin_def Serial_print_def Serial_println_def delay_def pinMode_def
  digitalWrite_def log_i_def log_w_def

lemmas cfg_defs =
  load_persisted_def persist_def cfg_init_def cfg_reload_def cfg_wifiEnable_def
  cfg_saveBrightness_def cfg_colorsInvertedEnable_def cfg_saveSampleTime_def
  cfg_getBrightness_def cfg_isWifiEnable_def cfg_isIfxEnable_def cfg_getSensorType_def
  cfg_getDeviceId_def

lemmas gui_defs =
  gui_setBrightness_def gui_setWifiMode_def gui_setSampleTime_def gui_displayInit_def
  gui_setCallbacks_def gui_showWelcome_def gui_welcomeAddMessage_def gui_showMain_def
  gui_displaySensorLiveIcon_def gui_setSensorData_def gui_setGUIStatusFlags_def

lemmas module_defs =
  batteryInit_def batteryloop_def wd_init_def wd_loop_def wifiInit_def wifiLoop_def
  wifiStop_def bleServerInit_def bleLoop_def bleServerConfigRefresh_def influxDbInit_def
  influxDbLoop_def otaLoop_def

lemmas sensors_defs =
  upd_sensors_def sensors_setOnDataCallBack_def sensors_setOnErrorCallBack_def
  sensors_setSampleTime_def sensors_setTempOffset_def sensors_detectI2COnly_def
  sensors_setDebugMode_def sensors_init_def sensors_setCO2RecalibrationFactor_def
  sensors_isPmSensorConfigured_def sensors_getPmDeviceSelected_def
  sensors_getPmDeviceTypeSelected_def sensors_getPM25_def sensors_getCO2_def
  sensors_getHumidity_def sensors_getTemperature_def sensors_getCO2humi_def
  sensors_getCO2temp_def

lemmas callback_defs =
  sensors_loop_def run_data_callback_def run_error_callback_def store_reading_def
  onSensorDataOk_def onSensorDataError_def upd_sensors_def log_i_def log_w_def Let_def

text \<open>What one call does to the three components of the world.\<close>

lemma emit_simps [simp]:
  "trace (emit c w) = trace w @ [c]" "cfg (emit c w) = cfg w" "sensors (emit c w) = sensors w"
  by (simp_all add: emit_def)

lemma calls_since_append [simp]: "trace w' = trace w @ cs \<Longrightarrow> calls_since w w' = cs"
  by (simp add: calls_since_def)

lemma map_filter_append:
  "List.map_filter f (xs @ ys) = List.map_filter f xs @ List.map_filter f ys"
  by (simp add: List.map_filter_def)

lemma map_filter_none:
  "(\<And>x. x \<in> set xs \<Longrightarrow> f x = None) \<Longrightarrow> List.map_filter f xs = []"
  by (induction xs) (simp_all add: List.map_filter_simps)

text \<open>The two calls of \<^verbatim>\<open>refreshGUIData\<close>, with the arguments written out.\<close>

lemma refreshGUIData_trace:
  "trace (refreshGUIData e w) = trace w @
     [Gui GuiDisplaySensorLiveIcon,
      Gui (GuiSetSensorData
        \<lparr>arg_mainValue =
           (if sint (device_type_selected (sensors w)) \<le> 3 then pm25 (sensors w)
            else co2 (sensors w)),
         arg_chargeLevel = chargeLevel e,
         arg_humi =
           (if float_eq_zero (humidity (sensors w)) then co2humi (sensors w)
            else humidity (sensors w)),
         arg_temp =
           (if float_eq_zero (temperature (sensors w)) then co2temp (sensors w)
            else temperature (sensors w)),
         arg_rssi = wifiRSSI e,
         arg_deviceType = device_type_selected (sensors w)\<rparr>)]"
  by (simp add: refreshGUIData_def gui_defs sensors_defs Let_def)

lemma refreshGUIData_state [simp]:
  "cfg (refreshGUIData e w) = cfg w" "sensors (refreshGUIData e w) = sensors w"
  by (simp_all add: refreshGUIData_def gui_defs Let_def)

text \<open>
  A poll leaves the configuration and the sample time alone; after the poll itself, all
  it adds to the trace are calls of the callbacks.
\<close>

lemma sensors_loop_state [simp]:
  "cfg (sensors_loop e w) = cfg w"
  "sample_time (sensors (sensors_loop e w)) = sample_time (sensors w)"
  by (simp_all add: callback_defs
      split: poll_outcome.split option.split data_callback.split error_callback.split)

lemma sensors_loop_trace:
  "\<exists>cb. trace (sensors_loop e w) =
           trace w @ Sensors (SensorsLoop (sample_time (sensors w))) # cb
        \<and> list_all callback_call cb"
  by (simp add: callback_defs refreshGUIData_trace
      split: poll_outcome.split option.split data_callback.split error_callback.split)

lemma callback_call_proj:
  assumes "list_all callback_call cb"
  shows "List.map_filter step_of cb = []" "List.map_filter status_flags_of cb = []"
    "List.map_filter sensors_call_of cb = []"
proof -
  have *: "step_of x = None \<and> status_flags_of x = None \<and> sensors_call_of x = None"
    if "callback_call x" for x
    using that by (cases x rule: callback_call.cases) simp_all
  from assms have "\<And>x. x \<in> set cb \<Longrightarrow> callback_call x" by (simp add: list_all_iff)
  with * show "List.map_filter step_of cb = []" "List.map_filter status_flags_of cb = []"
    "List.map_filter sensors_call_of cb = []"
    by (simp_all add: map_filter_none)
qed

text \<open>The calls of one iteration of \<^verbatim>\<open>loop\<close>.\<close>

lemma loop_trace:
  "\<exists>cb. trace (loop e w) = trace w @ Sensors (SensorsLoop (sample_time (sensors w))) # cb @
       [Module BatteryLoop, Module BleLoop, Module WifiLoop, Module InfluxDbLoop,
        Module OtaLoop, Module WdLoop,
        Gui (GuiSetGUIStatusFlags (wifi_isConnected e) True (ble_isConnected e))]
     \<and> list_all callback_call cb"
proof -
  obtain cb where
    "trace (sensors_loop e w) = trace w @ Sensors (SensorsLoop (sample_time (sensors w))) # cb"
    "list_all callback_call cb"
    using sensors_loop_trace by blast
  then show ?thesis
    by (simp add: loop_def module_defs gui_defs)
qed

text \<open>The same as an equation, for rewriting inside a longer sequence of statements.\<close>

lemma sensors_loop_trace_eq:
  "trace (sensors_loop e w) =
     trace w @ Sensors (SensorsLoop (sample_time (sensors w))) # callback_calls e w"
  using sensors_loop_trace [of e w]
  by (auto simp: callback_calls_def)

lemma callback_calls_all: "list_all callback_call (callback_calls e w)"
  using sensors_loop_trace [of e w]
  by (auto simp: callback_calls_def)

text \<open>The calls of \<^verbatim>\<open>startingSensors\<close> and the hub it leaves behind.\<close>

lemma startingSensors_trace:
  "trace (startingSensors e w) = trace w @
     [Arduino (SerialPrintln
        [Str ''-->[INFO] PM sensor configured: '', OfInt (stype (loaded (cfg w)))]),
      Gui (GuiWelcomeAddMessage [Str ''Detected sensor:'']),
      Sensors SensorsSetOnDataCallBack,
      Sensors SensorsSetOnErrorCallBack,
      Sensors (SensorsSetSampleTime 1),
      Sensors (SensorsSetTempOffset (toffset (loaded (cfg w)))),
      Sensors (SensorsDetectI2COnly (i2conly (loaded (cfg w)))),
      Sensors (SensorsSetDebugMode (devmode (loaded (cfg w)))),
      Sensors (SensorsInit (stype (loaded (cfg w))) 1)] @
     (if det_configured (detection e) then
        [Arduino (SerialPrint [Str ''-->[INFO] PM/CO2 sensor detected: '']),
         Arduino (SerialPrintln [Str (det_device (detection e))]),
         Gui (GuiWelcomeAddMessage [Str (det_device (detection e))])]
      else
        [Arduino (SerialPrintln [Str ''-->[INFO] Detection sensors FAIL!'']),
         Gui (GuiWelcomeAddMessage [Str ''Detection !FAILED!''])])"
  by (simp add: startingSensors_def arduino_defs cfg_defs gui_defs sensors_defs)

lemma startingSensors_state [simp]:
  "cfg (startingSensors e w) = cfg w"
  "sensors (startingSensors e w) = (sensors w)
     \<lparr>onDataCb := Some OnSensorDataOk, onErrorCb := Some OnSensorDataError, sample_time := 1,
      temp_offset := toffset (loaded (cfg w)), i2c_only := i2conly (loaded (cfg w)),
      debug_mode := devmode (loaded (cfg w)),
      pm_sensor_configured := det_configured (detection e),
      device_selected := det_device (detection e),
      device_type_selected := det_device_type (detection e)\<rparr>"
  by (simp_all add: startingSensors_def arduino_defs cfg_defs gui_defs sensors_defs)

text \<open>
  Every call of \<^verbatim>\<open>setup\<close>, in order.  \<open>cb\<close> stands for the calls of a sensor callback
  during the poll of line 177.
\<close>

lemma setup_trace:
  "\<exists>cb. list_all callback_call cb \<and> trace (setup_fn e w) = trace w @
     [Arduino (SerialBegin 115200),
      Arduino (Delay 400),
      Arduino (SerialPrintln [Str (CHR 0x0A # ''== CanAirIO Setup =='' @ [CHR 0x0A])]),
      Cfg (CfgInit ''canairio''),
      Gui (GuiSetBrightness (brightness (persisted (cfg w)))),
      Gui (GuiSetWifiMode (wifi_enable (persisted (cfg w)))),
      Gui (GuiSetSampleTime (stime (persisted (cfg w)))),
      Gui GuiDisplayInit,
      Gui GuiSetCallbacks,
      Gui GuiShowWelcome,
      Arduino (SerialPrintln
        [Str ''-->[INFO] ESP32MAC: '', Str (deviceId (persisted (cfg w)))]),
      Arduino (SerialPrintln [Str ''-->[INFO] Revision: '', Str (firmwareVersionCode e)]),
      Arduino (SerialPrintln [Str ''-->[INFO] Firmware: '', OfMacro VERSION]),
      Arduino (SerialPrintln [Str ''-->[INFO] Flavor  : '', OfMacro FLAVOR]),
      Arduino (SerialPrintln [Str ''-->[INFO] Target  : '', OfMacro TARGET]),
      Arduino (SerialPrintln [Str ''-->[INFO] Detecting sensors..'']),
      Arduino (PinMode PMS_EN OUTPUT),
      Arduino (DigitalWrite PMS_EN HIGH),
      Arduino (SerialPrintln
        [Str ''-->[INFO] PM sensor configured: '', OfInt (stype (persisted (cfg w)))]),
      Gui (GuiWelcomeAddMessage [Str ''Detected sensor:'']),
      Sensors SensorsSetOnDataCallBack,
      Sensors SensorsSetOnErrorCallBack,
      Sensors (SensorsSetSampleTime 1),
      Sensors (SensorsSetTempOffset (toffset (persisted (cfg w)))),
      Sensors (SensorsDetectI2COnly (i2conly (persisted (cfg w)))),
      Sensors (SensorsSetDebugMode (devmode (persisted (cfg w)))),
      Sensors (SensorsInit (stype (persisted (cfg w))) 1)] @
     (if det_configured (detection e) then
        [Arduino (SerialPrint [Str ''-->[INFO] PM/CO2 sensor detected: '']),
         Arduino (SerialPrintln [Str (det_device (detection e))]),
         Gui (GuiWelcomeAddMessage [Str (det_device (detection e))])]
      else
        [Arduino (SerialPrintln [Str ''-->[INFO] Detection sensors FAIL!'']),
         Gui (GuiWelcomeAddMessage [Str ''Detection !FAILED!''])]) @
     [Module BatteryInit,
      Module WdInit,
      Module WifiInit,
      Module BleServerInit,
      Gui (GuiWelcomeAddMessage [Str ''Bluetooth ready.'']),
      Arduino (SerialPrintln
        [Str (''-->[INFO] InfluxDb API:'' @ [CHR 0x09]), OfBool (ifx_enable (persisted (cfg w)))]),
      Gui (GuiWelcomeAddMessage
        [Str ''InfluxDb :'', OfBool (ifx_enable (persisted (cfg w)))]),
      Module InfluxDbInit,
      Gui (GuiWelcomeAddMessage
        (if wifi_isConnected e then [Str ''WiFi:'', Str (ssid (persisted (cfg w)))]
         else [Str ''WiFi: disabled.''])),
      Gui (GuiWelcomeAddMessage
        [Str ''stime: '', OfInt (stime (persisted (cfg w))), Str '' sec.'']),
      Gui (GuiWelcomeAddMessage [Str (deviceId (persisted (cfg w)))]),
      Gui (GuiWelcomeAddMessage [Str ''Watchdog:'', OfMacro WATCHDOG_TIME]),
      Gui (GuiWelcomeAddMessage [Str ''==SETUP READY=='']),
      Arduino (Delay 500),
      Gui GuiShowMain,
      Gui GuiDisplaySensorLiveIcon,
      Gui (GuiSetSensorData
        \<lparr>arg_mainValue =
           (if sint (det_device_type (detection e)) \<le> 3 then pm25 (sensors w) else co2 (sensors w)),
         arg_chargeLevel = chargeLevel e,
         arg_humi =
           (if float_eq_zero (humidity (sensors w)) then co2humi (sensors w) else humidity (sensors w)),
         arg_temp =
           (if float_eq_zero (temperature (sensors w)) then co2temp (sensors w)
            else temperature (sensors w)),
         arg_rssi = wifiRSSI e,
         arg_deviceType = det_device_type (detection e)\<rparr>),
      Arduino (Delay 500),
      Sensors (SensorsLoop 1)] @
     cb @
     [Sensors (SensorsSetSampleTime (stime (persisted (cfg w))))]"
  by (cases "wifi_isConnected e")
    (simp_all add: setup_fn_def arduino_defs cfg_defs gui_defs module_defs upd_sensors_def
      sensors_setSampleTime_def startingSensors_trace refreshGUIData_trace
      sensors_loop_trace_eq callback_calls_all
      split del: if_split cong: if_cong)

text \<open>
  A run of \<^verbatim>\<open>loop\<close>: induction on the iterations, with the starting world generalised.
\<close>

lemma callback_call_count:
  "list_all callback_call cb \<Longrightarrow> count_list cb (Module WdLoop) = 0"
  by (induction cb) auto

lemma callback_call_filter:
  "list_all callback_call cb \<Longrightarrow> filter (\<lambda>c. \<not> callback_call c) cb = []"
  by (induction cb) auto

lemma loop_state [simp]:
  "cfg (loop e w) = cfg w"
  "sample_time (sensors (loop e w)) = sample_time (sensors w)"
  by (simp_all add: loop_def module_defs gui_defs)

lemma loops_state [simp]:
  "cfg (loops es w) = cfg w"
  "sample_time (sensors (loops es w)) = sample_time (sensors w)"
  by (induction es arbitrary: w) simp_all

text \<open>
  Every call of a run that is not a callback's call is one of the eight calls of
  \<^verbatim>\<open>loop\<close>, in the order of the source, iteration after iteration.
\<close>

lemma loops_calls:
  "\<exists>cs. trace (loops es w) = trace w @ cs
     \<and> filter (\<lambda>c. \<not> callback_call c) cs =
         concat (map (\<lambda>e.
           [Sensors (SensorsLoop (sample_time (sensors w))),
            Module BatteryLoop, Module BleLoop, Module WifiLoop, Module InfluxDbLoop,
            Module OtaLoop, Module WdLoop,
            Gui (GuiSetGUIStatusFlags (wifi_isConnected e) True (ble_isConnected e))]) es)"
proof (induction es arbitrary: w)
  case Nil
  show ?case by simp
next
  case (Cons e es)
  obtain cb where cb: "list_all callback_call cb"
    and one: "trace (loop e w) = trace w @ Sensors (SensorsLoop (sample_time (sensors w))) # cb @
       [Module BatteryLoop, Module BleLoop, Module WifiLoop, Module InfluxDbLoop,
        Module OtaLoop, Module WdLoop,
        Gui (GuiSetGUIStatusFlags (wifi_isConnected e) True (ble_isConnected e))]"
    using loop_trace [of e w] by blast
  obtain cs where rest: "trace (loops es (loop e w)) = trace (loop e w) @ cs"
    and calls: "filter (\<lambda>c. \<not> callback_call c) cs =
         concat (map (\<lambda>e.
           [Sensors (SensorsLoop (sample_time (sensors w))),
            Module BatteryLoop, Module BleLoop, Module WifiLoop, Module InfluxDbLoop,
            Module OtaLoop, Module WdLoop,
            Gui (GuiSetGUIStatusFlags (wifi_isConnected e) True (ble_isConnected e))]) es)"
    using Cons.IH [of "loop e w"] by auto
  let ?one = "Sensors (SensorsLoop (sample_time (sensors w))) # cb @
       [Module BatteryLoop, Module BleLoop, Module WifiLoop, Module InfluxDbLoop,
        Module OtaLoop, Module WdLoop,
        Gui (GuiSetGUIStatusFlags (wifi_isConnected e) True (ble_isConnected e))]"
  have "trace (loops (e # es) w) = trace w @ (?one @ cs)"
    using one rest by simp
  moreover have "filter (\<lambda>c. \<not> callback_call c) (?one @ cs) =
         concat (map (\<lambda>e.
           [Sensors (SensorsLoop (sample_time (sensors w))),
            Module BatteryLoop, Module BleLoop, Module WifiLoop, Module InfluxDbLoop,
            Module OtaLoop, Module WdLoop,
            Gui (GuiSetGUIStatusFlags (wifi_isConnected e) True (ble_isConnected e))]) (e # es))"
    using calls callback_call_filter [OF cb] by simp
  ultimately show ?case by blast
qed

lemma loops_trace:
  "\<exists>cs. trace (loops es w) = trace w @ cs
     \<and> List.map_filter step_of cs = concat (replicate (length es) loop_steps)
     \<and> List.map_filter status_flags_of cs =
         map (\<lambda>e. (wifi_isConnected e, True, ble_isConnected e)) es
     \<and> count_list cs (Module WdLoop) = length es"
proof (induction es arbitrary: w)
  case Nil
  show ?case by (simp add: List.map_filter_simps)
next
  case (Cons e es)
  obtain cb where cb: "list_all callback_call cb"
    and one: "trace (loop e w) = trace w @ Sensors (SensorsLoop (sample_time (sensors w))) # cb @
       [Module BatteryLoop, Module BleLoop, Module WifiLoop, Module InfluxDbLoop,
        Module OtaLoop, Module WdLoop,
        Gui (GuiSetGUIStatusFlags (wifi_isConnected e) True (ble_isConnected e))]"
    using loop_trace [of e w] by blast
  obtain cs where rest: "trace (loops es (loop e w)) = trace (loop e w) @ cs"
    and steps: "List.map_filter step_of cs = concat (replicate (length es) loop_steps)"
    and flags: "List.map_filter status_flags_of cs =
       map (\<lambda>e. (wifi_isConnected e, True, ble_isConnected e)) es"
    and feeds: "count_list cs (Module WdLoop) = length es"
    using Cons.IH [of "loop e w"] by blast
  let ?one = "Sensors (SensorsLoop (sample_time (sensors w))) # cb @
       [Module BatteryLoop, Module BleLoop, Module WifiLoop, Module InfluxDbLoop,
        Module OtaLoop, Module WdLoop,
        Gui (GuiSetGUIStatusFlags (wifi_isConnected e) True (ble_isConnected e))]"
  have "trace (loops (e # es) w) = trace w @ (?one @ cs)"
    using one rest by simp
  moreover have "List.map_filter step_of (?one @ cs) =
      concat (replicate (length (e # es)) loop_steps)"
    using steps callback_call_proj(1) [OF cb]
    by (simp add: map_filter_append List.map_filter_simps loop_steps_def)
  moreover have "List.map_filter status_flags_of (?one @ cs) =
      map (\<lambda>e. (wifi_isConnected e, True, ble_isConnected e)) (e # es)"
    using flags callback_call_proj(2) [OF cb]
    by (simp add: map_filter_append List.map_filter_simps)
  moreover have "count_list (?one @ cs) (Module WdLoop) = length (e # es)"
    using feeds callback_call_count [OF cb] by simp
  ultimately show ?case by blast
qed

section \<open>Sensor value resolution\<close>

text \<open>
  C1. For every sensor reading, the main value that \<^verbatim>\<open>refreshGUIData\<close> hands to the
  display equals the pm25 reading when the selected device type is at most 3, and the
  co2 reading when the device type is greater than 3.  The device type is a signed
  \<^verbatim>\<open>int\<close>: negative values count as ``at most 3''.
\<close>

theorem resolved_main_value:
  "\<exists>d. trace (refreshGUIData e w) =
          trace w @ [Gui GuiDisplaySensorLiveIcon, Gui (GuiSetSensorData d)]
     \<and> (sint (sensors_getPmDeviceTypeSelected w) \<le> 3 \<longrightarrow> arg_mainValue d = sensors_getPM25 w)
     \<and> (3 < sint (sensors_getPmDeviceTypeSelected w) \<longrightarrow> arg_mainValue d = sensors_getCO2 w)"
  by (simp add: refreshGUIData_trace sensors_defs)

text \<open>
  The two scenarios of the spec: device type 2 shows pm25 = 35, device type 5 shows
  co2 = 650.
\<close>

theorem resolved_main_value_witness:
  "sint (sensors_getPmDeviceTypeSelected world_pm) \<le> 3
   \<and> (\<exists>d. trace (refreshGUIData env_no_sensor world_pm) =
          trace world_pm @ [Gui GuiDisplaySensorLiveIcon, Gui (GuiSetSensorData d)]
        \<and> arg_mainValue d = 35)
   \<and> 3 < sint (sensors_getPmDeviceTypeSelected world_co2)
   \<and> (\<exists>d. trace (refreshGUIData env_no_sensor world_co2) =
          trace world_co2 @ [Gui GuiDisplaySensorLiveIcon, Gui (GuiSetSensorData d)]
        \<and> arg_mainValue d = 650)"
  using resolved_main_value [of env_no_sensor world_pm]
    resolved_main_value [of env_no_sensor world_co2]
  by (simp add: world_pm_def world_co2_def example_hub_def sensors_defs)

text \<open>
  C2. For every sensor reading, the humidity handed to the display is the primary
  humidity reading when that reading is not equal to 0.0, and the co2-derived humidity
  when the primary reading equals 0.0; the same rule holds for the temperature.
  ``Equal to 0.0'' is the comparison \<^verbatim>\<open>==\<close> of the code, which \<open>-0.0\<close> passes and NaN
  does not.
\<close>

theorem resolved_humidity_temperature:
  "\<exists>d. trace (refreshGUIData e w) =
          trace w @ [Gui GuiDisplaySensorLiveIcon, Gui (GuiSetSensorData d)]
     \<and> (\<not> float_eq_zero (sensors_getHumidity w) \<longrightarrow> arg_humi d = sensors_getHumidity w)
     \<and> (float_eq_zero (sensors_getHumidity w) \<longrightarrow> arg_humi d = sensors_getCO2humi w)
     \<and> (\<not> float_eq_zero (sensors_getTemperature w) \<longrightarrow> arg_temp d = sensors_getTemperature w)
     \<and> (float_eq_zero (sensors_getTemperature w) \<longrightarrow> arg_temp d = sensors_getCO2temp w)"
  by (simp add: refreshGUIData_trace sensors_defs)

text \<open>
  In the first example the humidity is 0.0 and the temperature is not; in the second
  the humidity is not zero and the temperature is \<open>-0.0\<close>.
\<close>

theorem resolved_humidity_temperature_witness:
  "float_eq_zero (sensors_getHumidity world_pm)
   \<and> \<not> float_eq_zero (sensors_getTemperature world_pm)
   \<and> (\<exists>d. trace (refreshGUIData env_no_sensor world_pm) =
          trace world_pm @ [Gui GuiDisplaySensorLiveIcon, Gui (GuiSetSensorData d)]
        \<and> arg_humi d = 0x4240CCCD \<and> arg_temp d = 0x41B40000)
   \<and> \<not> float_eq_zero (sensors_getHumidity world_co2)
   \<and> float_eq_zero (sensors_getTemperature world_co2)
   \<and> (\<exists>d. trace (refreshGUIData env_no_sensor world_co2) =
          trace world_co2 @ [Gui GuiDisplaySensorLiveIcon, Gui (GuiSetSensorData d)]
        \<and> arg_humi d = 0x425C0000 \<and> arg_temp d = 0x41A80000)"
  using resolved_humidity_temperature [of env_no_sensor world_pm]
    resolved_humidity_temperature [of env_no_sensor world_co2]
  by (simp add: world_pm_def world_co2_def example_hub_def sensors_defs float_eq_zero_def)

section \<open>Preference callbacks\<close>

text \<open>
  C3. When the time of \<^verbatim>\<open>onSampleTime\<close> equals the hub's current sample time, the
  handler does nothing: no call is made (no save, no reload, no config-server refresh,
  no \<^verbatim>\<open>setSampleTime\<close>) and the whole state is unchanged.
\<close>

theorem onSampleTime_unchanged:
  "sample_time (sensors w) = t \<Longrightarrow> onSampleTime t w = w"
  by (simp add: onSampleTime_def)

theorem onSampleTime_unchanged_witness:
  "sample_time (sensors world_pm) = 5 \<and> onSampleTime 5 world_pm = world_pm"
proof -
  have h: "sample_time (sensors world_pm) = 5"
    by (simp add: world_pm_def example_hub_def)
  show ?thesis using h onSampleTime_unchanged [OF h] by simp
qed




text \<open>
  C5. \<^verbatim>\<open>onWifiMode(enable)\<close> persists the wifi flag and then reloads the configuration;
  with \<open>enable\<close> false it then makes exactly one \<^verbatim>\<open>wifiStop()\<close> call, after both; with
  \<open>enable\<close> true it makes no \<^verbatim>\<open>wifiStop()\<close> call.
\<close>

theorem onWifiMode_calls:
  "trace (onWifiMode False w) = trace w @
     [Arduino (SerialPrintln [Str ''-->[MAIN] onWifi changed: '', OfBool False]),
      Cfg (CfgWifiEnable False),
      Cfg CfgReload,
      Module WifiStop]
   \<and> trace (onWifiMode True w) = trace w @
     [Arduino (SerialPrintln [Str ''-->[MAIN] onWifi changed: '', OfBool True]),
      Cfg (CfgWifiEnable True),
      Cfg CfgReload]"
  by (simp add: onWifiMode_def arduino_defs cfg_defs module_defs)

text \<open>
  C6. \<^verbatim>\<open>onCalibrationReady\<close> calls the hub's recalibration exactly once, with the
  constant 418, whatever the readings and the configuration are; it makes no call on
  the configuration store and leaves the store as it is.
\<close>

theorem onCalibrationReady_calls:
  "trace (onCalibrationReady w) = trace w @
     [Arduino (SerialPrintln [Str ''-->[MAIN] onCalibrationReady'']),
      Sensors (SensorsSetCO2RecalibrationFactor 418)]
   \<and> cfg (onCalibrationReady w) = cfg w"
  by (simp add: onCalibrationReady_def arduino_defs sensors_defs)

section \<open>The main loop\<close>

text \<open>
  C7. Every iteration of \<^verbatim>\<open>loop\<close> makes exactly eight calls of its own, in the fixed
  order sensor poll, battery poll, config-server notify, wifi check, cloud publish,
  firmware-update check, watchdog feed, display status flags.  The only other calls of an
  iteration are those a sensor callback makes inside the sensor poll (a log line, the
  display refresh), and \<^verbatim>\<open>loop\<close> changes neither the configuration nor the sample time.
  A run of any number of iterations repeats the eight calls once per iteration, with
  nothing skipped, reordered or added, and feeds the watchdog once per iteration.
\<close>

theorem loop_fixed_order:
  "calls_since w (loop e w) =
     Sensors (SensorsLoop (sample_time (sensors w))) # callback_calls e w @
     [Module BatteryLoop, Module BleLoop, Module WifiLoop, Module InfluxDbLoop,
      Module OtaLoop, Module WdLoop,
      Gui (GuiSetGUIStatusFlags (wifi_isConnected e) True (ble_isConnected e))]
   \<and> list_all callback_call (callback_calls e w)
   \<and> filter (\<lambda>c. \<not> callback_call c) (calls_since w (loops es w)) =
       concat (map (\<lambda>e.
         [Sensors (SensorsLoop (sample_time (sensors w))),
          Module BatteryLoop, Module BleLoop, Module WifiLoop, Module InfluxDbLoop,
          Module OtaLoop, Module WdLoop,
          Gui (GuiSetGUIStatusFlags (wifi_isConnected e) True (ble_isConnected e))]) es)
   \<and> cfg (loops es w) = cfg w
   \<and> sample_time (sensors (loops es w)) = sample_time (sensors w)
   \<and> List.map_filter step_of (calls_since w (loop e w)) = loop_steps
   \<and> List.map_filter step_of (calls_since w (loops es w)) =
       concat (replicate (length es) loop_steps)
   \<and> count_list (calls_since w (loops es w)) (Module WdLoop) = length es"
proof -
  have one: "calls_since w (loop e w) =
     Sensors (SensorsLoop (sample_time (sensors w))) # callback_calls e w @
     [Module BatteryLoop, Module BleLoop, Module WifiLoop, Module InfluxDbLoop,
      Module OtaLoop, Module WdLoop,
      Gui (GuiSetGUIStatusFlags (wifi_isConnected e) True (ble_isConnected e))]"
    by (simp add: loop_def module_defs gui_defs sensors_loop_trace_eq)
  have cb: "list_all callback_call (callback_calls e w)"
    by (rule callback_calls_all)
  obtain cs where "trace (loops es w) = trace w @ cs"
    "filter (\<lambda>c. \<not> callback_call c) cs =
       concat (map (\<lambda>e.
         [Sensors (SensorsLoop (sample_time (sensors w))),
          Module BatteryLoop, Module BleLoop, Module WifiLoop, Module InfluxDbLoop,
          Module OtaLoop, Module WdLoop,
          Gui (GuiSetGUIStatusFlags (wifi_isConnected e) True (ble_isConnected e))]) es)"
    using loops_calls [of es w] by blast
  then have run: "filter (\<lambda>c. \<not> callback_call c) (calls_since w (loops es w)) =
       concat (map (\<lambda>e.
         [Sensors (SensorsLoop (sample_time (sensors w))),
          Module BatteryLoop, Module BleLoop, Module WifiLoop, Module InfluxDbLoop,
          Module OtaLoop, Module WdLoop,
          Gui (GuiSetGUIStatusFlags (wifi_isConnected e) True (ble_isConnected e))]) es)"
    by simp
  obtain cs' where "trace (loops es w) = trace w @ cs'"
    "List.map_filter step_of cs' = concat (replicate (length es) loop_steps)"
    "count_list cs' (Module WdLoop) = length es"
    using loops_trace [of es w] by blast
  then have steps: "List.map_filter step_of (calls_since w (loops es w)) =
       concat (replicate (length es) loop_steps)"
    and feeds: "count_list (calls_since w (loops es w)) (Module WdLoop) = length es"
    by simp_all
  have "List.map_filter step_of (calls_since w (loop e w)) = loop_steps"
    using callback_call_proj(1) [OF cb]
    by (simp add: one map_filter_append List.map_filter_simps loop_steps_def)
  with one cb run steps feeds show ?thesis
    by simp
qed

text \<open>
  An iteration whose poll fails: the error callback logs one line inside the poll.
  Two such iterations make sixteen calls of their own and feed the watchdog twice.
\<close>

theorem loop_fixed_order_witness:
  "calls_since world_pm (loop env_no_sensor world_pm) =
     [Sensors (SensorsLoop 5),
      Arduino (LogW ''[MAIN] onSensorDataError'' ''-->[W][SENSORS] No data from any sensor!''),
      Module BatteryLoop, Module BleLoop, Module WifiLoop, Module InfluxDbLoop,
      Module OtaLoop, Module WdLoop,
      Gui (GuiSetGUIStatusFlags False True False)]
   \<and> filter (\<lambda>c. \<not> callback_call c)
         (calls_since world_pm (loops [env_no_sensor, env_no_sensor] world_pm)) =
       [Sensors (SensorsLoop 5),
        Module BatteryLoop, Module BleLoop, Module WifiLoop, Module InfluxDbLoop,
        Module OtaLoop, Module WdLoop,
        Gui (GuiSetGUIStatusFlags False True False),
        Sensors (SensorsLoop 5),
        Module BatteryLoop, Module BleLoop, Module WifiLoop, Module InfluxDbLoop,
        Module OtaLoop, Module WdLoop,
        Gui (GuiSetGUIStatusFlags False True False)]
   \<and> List.map_filter step_of
         (calls_since world_pm (loops [env_no_sensor, env_no_sensor] world_pm)) =
       [SensorPoll, BatteryPoll, ConfigServerNotify, WifiCheck,
        CloudPublish, FirmwareUpdateCheck, WatchdogFeed, DisplayStatusFlags,
        SensorPoll, BatteryPoll, ConfigServerNotify, WifiCheck,
        CloudPublish, FirmwareUpdateCheck, WatchdogFeed, DisplayStatusFlags]
   \<and> count_list (calls_since world_pm (loops [env_no_sensor, env_no_sensor] world_pm))
         (Module WdLoop) = 2"
proof -
  have "callback_calls env_no_sensor world_pm =
      [Arduino (LogW ''[MAIN] onSensorDataError'' ''-->[W][SENSORS] No data from any sensor!'')]"
    by (simp add: callback_calls_def callback_defs env_no_sensor_def world_pm_def example_hub_def)
  moreover have "sample_time (sensors world_pm) = 5"
    by (simp add: world_pm_def example_hub_def)
  ultimately show ?thesis
    using loop_fixed_order [of world_pm env_no_sensor "[env_no_sensor, env_no_sensor]"]
    by (simp add: loop_steps_def env_no_sensor_def)
qed

text \<open>
  C9. In every iteration the sensors-ok argument of the status-flags update is the
  constant \<open>True\<close>, for every state of the hub (detected or not) and every outcome of
  the poll (a read error included); the other two arguments are what
  \<^verbatim>\<open>WiFi.isConnected()\<close> and \<^verbatim>\<open>bleIsConnected()\<close> return in that iteration.
\<close>

theorem status_flags_sensors_ok_constant:
  "last (trace (loop e w)) =
     Gui (GuiSetGUIStatusFlags (wifi_isConnected e) True (ble_isConnected e))
   \<and> List.map_filter status_flags_of (calls_since w (loops es w)) =
       map (\<lambda>e. (wifi_isConnected e, True, ble_isConnected e)) es"
proof -
  obtain cs where "trace (loops es w) = trace w @ cs"
    "List.map_filter status_flags_of cs =
       map (\<lambda>e. (wifi_isConnected e, True, ble_isConnected e)) es"
    using loops_trace [of es w] by blast
  moreover
  obtain cb where
    "trace (loop e w) = trace w @ Sensors (SensorsLoop (sample_time (sensors w))) # cb @
       [Module BatteryLoop, Module BleLoop, Module WifiLoop, Module InfluxDbLoop,
        Module OtaLoop, Module WdLoop,
        Gui (GuiSetGUIStatusFlags (wifi_isConnected e) True (ble_isConnected e))]"
    using loop_trace [of e w] by blast
  ultimately show ?thesis by simp
qed

text \<open>An iteration whose poll fails, with wifi and bluetooth down: sensors-ok is still true.\<close>

theorem status_flags_sensors_ok_constant_witness:
  "poll env_no_sensor = NoData ''-->[W][SENSORS] No data from any sensor!''
   \<and> last (trace (loop env_no_sensor world_pm)) = Gui (GuiSetGUIStatusFlags False True False)
   \<and> List.map_filter status_flags_of
         (calls_since world_pm (loops [env_no_sensor, env_no_sensor] world_pm)) =
       [(False, True, False), (False, True, False)]"
  using status_flags_sensors_ok_constant
    [of env_no_sensor world_pm "[env_no_sensor, env_no_sensor]"]
  by (simp add: env_no_sensor_def)

section \<open>Startup\<close>

text \<open>
  C8. If detection fails during startup (\<^verbatim>\<open>sensors.isPmSensorConfigured()\<close> is false
  after \<^verbatim>\<open>sensors.init\<close>), \<^verbatim>\<open>setup\<close> puts the failure message on the display and still
  goes on, in this order, through battery, watchdog, wifi, config server and cloud
  initialisation to the ready message and the main screen, and runs to its last
  statement.  \<^verbatim>\<open>setup\<close> has no abort and makes no reset call on any path.
\<close>

theorem setup_survives_detection_failure:
  assumes "\<not> det_configured (detection e)"
  shows "subseq
       [Gui (GuiWelcomeAddMessage [Str ''Detection !FAILED!'']),
        Module BatteryInit, Module WdInit, Module WifiInit, Module BleServerInit,
        Module InfluxDbInit,
        Gui (GuiWelcomeAddMessage [Str ''==SETUP READY=='']),
        Gui GuiShowMain]
       (calls_since w (setup_fn e w))
     \<and> last (trace (setup_fn e w)) = Sensors (SensorsSetSampleTime (stime (persisted (cfg w))))"
  using setup_trace [of e w] assms by (auto simp del: append_assoc)

theorem setup_survives_detection_failure_witness:
  "\<not> det_configured (detection env_no_sensor)
   \<and> subseq
       [Gui (GuiWelcomeAddMessage [Str ''Detection !FAILED!'']),
        Module BatteryInit, Module WdInit, Module WifiInit, Module BleServerInit,
        Module InfluxDbInit,
        Gui (GuiWelcomeAddMessage [Str ''==SETUP READY=='']),
        Gui GuiShowMain]
       (calls_since world_pm (setup_fn env_no_sensor world_pm))
   \<and> last (trace (setup_fn env_no_sensor world_pm)) = Sensors (SensorsSetSampleTime 5)"
proof -
  have h: "\<not> det_configured (detection env_no_sensor)"
    by (simp add: env_no_sensor_def)
  have "stime (persisted (cfg world_pm)) = 5"
    by (simp add: world_pm_def example_configuration_def)
  then show ?thesis
    using h setup_survives_detection_failure [OF h, of world_pm] by simp
qed

text \<open>
  C10. The calls of \<^verbatim>\<open>setup\<close> on the sensor hub are, in order: the two callback
  registrations, \<^verbatim>\<open>setSampleTime(1)\<close>, the three settings, \<^verbatim>\<open>init\<close>, \<^verbatim>\<open>loop\<close>, and
  \<^verbatim>\<open>setSampleTime(cfg.stime)\<close>, which is the last statement of \<^verbatim>\<open>setup\<close>.  So for every
  persisted configuration, detection and the first poll run with sample time 1, and the
  persisted sample time reaches the hub only after the first poll.
\<close>

theorem setup_sample_time_first_use:
  "List.map_filter sensors_call_of (calls_since w (setup_fn e w)) =
     [SensorsSetOnDataCallBack,
      SensorsSetOnErrorCallBack,
      SensorsSetSampleTime 1,
      SensorsSetTempOffset (toffset (persisted (cfg w))),
      SensorsDetectI2COnly (i2conly (persisted (cfg w))),
      SensorsSetDebugMode (devmode (persisted (cfg w))),
      SensorsInit (stype (persisted (cfg w))) 1,
      SensorsLoop 1,
      SensorsSetSampleTime (stime (persisted (cfg w)))]
   \<and> last (trace (setup_fn e w)) = Sensors (SensorsSetSampleTime (stime (persisted (cfg w))))"
  using setup_trace [of e w]
  by (auto simp: calls_since_def map_filter_append List.map_filter_simps callback_call_proj(3))

text \<open>A device configured for a sample time of 5 seconds.\<close>

theorem setup_sample_time_first_use_witness:
  "List.map_filter sensors_call_of (calls_since world_pm (setup_fn env_no_sensor world_pm)) =
     [SensorsSetOnDataCallBack,
      SensorsSetOnErrorCallBack,
      SensorsSetSampleTime 1,
      SensorsSetTempOffset 0,
      SensorsDetectI2COnly False,
      SensorsSetDebugMode False,
      SensorsInit 0 1,
      SensorsLoop 1,
      SensorsSetSampleTime 5]
   \<and> last (trace (setup_fn env_no_sensor world_pm)) = Sensors (SensorsSetSampleTime 5)"
  using setup_sample_time_first_use [of world_pm env_no_sensor]
  by (simp add: world_pm_def example_configuration_def)

end
